theory Spec2Isabelle
  imports Complex_Main
begin

section \<open>Data model of the wallet ledger\<close>

text \<open>
  The services of \<^verbatim>\<open>walletService.ts\<close> and \<^verbatim>\<open>giftService.ts\<close> work on tables of a
  relational store through an ORM client. The store is a record of its tables; every
  service function takes the store and returns its result together with the store it
  leaves behind. A \<^verbatim>\<open>throw createError(.., code, details)\<close> is the value \<open>Inl code\<close>.
\<close>

datatype error =
    INVALID_AMOUNT
  | WALLET_NOT_FOUND
  | WALLET_LOCKED
  | INSUFFICIENT_BALANCE int int    \<comment> \<open>details: required, available\<close>
  | INVALID_TRANSFER
  | INVALID_RECIPIENT
  | INVALID_QUANTITY
  | GIFT_NOT_FOUND
  | GIFT_NOT_AVAILABLE
  | INSUFFICIENT_QUANTITY int int   \<comment> \<open>details: available, requested\<close>
  | INVALID_CODE
  | CODE_ALREADY_USED
  | CODE_EXPIRED
  | CODE_VALIDATION_FAILED
  | INVALID_REVENUE_SHARE
  | PLATFORM_NOT_FOUND
  | RECORD_NOT_FOUND                \<comment> \<open>the ORM's error of an update whose row is absent\<close>
  | UNIQUE_CONSTRAINT               \<comment> \<open>the ORM's error of a create that repeats a unique value\<close>

datatype transactionType =
  DEPOSIT | GIFT_RECEIVED | BONUS | REFUND | GIFT_SENT | WITHDRAWAL | PENALTY

text \<open>
  Descriptions are template strings in the source; the model keeps the template and its
  parameters instead of the rendered text.
\<close>

datatype description =
    Text string
  | SentGift int string          \<comment> \<open>\<^verbatim>\<open>Sent ${quantity}x ${giftType.name} to user\<close>\<close>
  | ReceivedGift int string      \<comment> \<open>\<^verbatim>\<open>Received ${quantity}x ${giftType.name}\<close>\<close>
  | StripePayment int            \<comment> \<open>\<^verbatim>\<open>Stripe payment: $${(amount / 100).toFixed(2)}\<close>, the amount in cents\<close>

type_synonym json = "(string \<times> string) list"

text \<open>
  A wallet row. \<open>wallet_id\<close> is the key the store generates, \<open>wallet_userId\<close> the unique
  owner; the table is keyed by the owner, the only way the services look a wallet up.
\<close>

record wallet =
  wallet_id :: nat
  wallet_userId :: string
  balanceCoins :: int
  totalSpent :: int
  totalEarned :: int
  isLocked :: bool

record walletTransaction =
  walletId :: nat
  transactionType :: transactionType
  amount :: int
  balanceAfter :: int
  txDescription :: description
  referenceType :: "string option"
  referenceId :: "string option"
  metadata :: "json option"

record giftType =
  giftName :: string
  isActive :: bool
  giftPlatformId :: "string option"
  priceCoins :: int
  isLimited :: bool
  maxQuantity :: "int option"
  soldQuantity :: int

text \<open>\<open>revenueShare\<close> is a double in the source; the model holds the rational it denotes.\<close>

record giftMarketplace =
  revenueShare :: rat
  isEnabled :: bool

datatype giftStatus = COMPLETED

record giftTransaction =
  gt_fromUserId :: string
  gt_toUserId :: string
  gt_giftTypeId :: string
  gt_platformId :: string
  gt_quantity :: int
  gt_totalCoins :: int
  gt_message :: "string option"
  gt_transactionId :: string
  gt_platformFee :: int
  gt_socialWalletFee :: int
  gt_status :: giftStatus

datatype paymentStatus = PENDING | PROCESSING | SUCCEEDED | FAILED | CANCELED | REFUNDED

record stripePayment =
  sp_userId :: string
  sp_amount :: int
  sp_coins :: int
  sp_status :: paymentStatus
  sp_completedAt :: "int option"

record authorizationCode =
  ac_userId :: string
  ac_clientId :: string
  ac_redirectUri :: string
  ac_scopes :: "string list"
  ac_expiresAt :: int
  ac_used :: bool

record accessToken =
  at_userId :: string
  at_clientId :: string
  at_token :: string
  at_refreshToken :: string
  at_scopes :: "string list"
  at_expiresAt :: int

record apiClient =
  clientName :: string
  clientIsActive :: bool

record db =
  apiClients :: "string \<rightharpoonup> apiClient"
  wallets :: "string \<rightharpoonup> wallet"
  walletTransactions :: "walletTransaction list"
  nextWalletId :: nat
  giftTypes :: "string \<rightharpoonup> giftType"
  giftMarketplaces :: "string \<rightharpoonup> giftMarketplace"
  giftTransactions :: "giftTransaction list"
  stripePayments :: "string \<rightharpoonup> stripePayment"
  authorizationCodes :: "string \<rightharpoonup> authorizationCode"
  accessTokens :: "accessToken list"

definition empty_db :: db where
  "empty_db = \<lparr> apiClients = Map.empty, wallets = Map.empty, walletTransactions = [], nextWalletId = 0,
      giftTypes = Map.empty, giftMarketplaces = Map.empty, giftTransactions = [],
      stripePayments = Map.empty, authorizationCodes = Map.empty, accessTokens = [] \<rparr>"

section \<open>WalletService\<close>

text \<open>
  \<^verbatim>\<open>tx.wallet.create\<close> of \<^verbatim>\<open>addCoins\<close>: a zero wallet under a key the store generates
  (the next unused number here). The source sets no lock flag on creation; the new
  wallet is unlocked.
\<close>

definition newWallet :: "string \<Rightarrow> db \<Rightarrow> wallet" where
  "newWallet userId s = \<lparr> wallet_id = nextWalletId s, wallet_userId = userId,
      balanceCoins = 0, totalSpent = 0, totalEarned = 0, isLocked = False \<rparr>"

text \<open>
  \<^verbatim>\<open>getWalletBalance\<close> reports 0 for a user without a wallet (it creates the zero wallet);
  \<open>balanceOf\<close> is the balance it reports.
\<close>

definition balanceOf :: "db \<Rightarrow> string \<Rightarrow> int" where
  "balanceOf s userId = (case wallets s userId of None \<Rightarrow> 0 | Some w \<Rightarrow> balanceCoins w)"

text \<open>
  \<^verbatim>\<open>addCoins\<close>: the amount check, then one transaction of the module's client that loads
  or creates the wallet, writes the new balance and appends the ledger row.
\<close>

definition addCoins ::
  "string \<Rightarrow> int \<Rightarrow> transactionType \<Rightarrow> description \<Rightarrow> string option \<Rightarrow> string option \<Rightarrow>
   json option \<Rightarrow> db \<Rightarrow> (error + int) \<times> db" where
  "addCoins userId coins ty descr refType refId meta s =
     (if coins \<le> 0 then (Inl INVALID_AMOUNT, s)
      else
        let (wallet, s1) =
              (case wallets s userId of
                 Some w \<Rightarrow> (w, s)
               | None \<Rightarrow> (newWallet userId s,
                   s\<lparr> wallets := (wallets s)(userId \<mapsto> newWallet userId s),
                      nextWalletId := Suc (nextWalletId s) \<rparr>));
            newBalance = balanceCoins wallet + coins;
            s2 = s1\<lparr> wallets := (wallets s1)(userId \<mapsto>
                   wallet\<lparr> balanceCoins := newBalance,
                           totalEarned := totalEarned wallet + coins \<rparr>) \<rparr>;
            s3 = s2\<lparr> walletTransactions := walletTransactions s2 @
                   [\<lparr> walletId = wallet_id wallet, transactionType = ty, amount = coins,
                      balanceAfter = newBalance, txDescription = descr,
                      referenceType = refType, referenceId = refId, metadata = meta \<rparr>] \<rparr>
        in (Inr newBalance, s3))"

text \<open>
  \<^verbatim>\<open>deductCoins\<close>: the amount check, then one transaction whose checks (wallet present,
  not locked, balance sufficient) come before its two writes.
\<close>

definition deductCoins ::
  "string \<Rightarrow> int \<Rightarrow> transactionType \<Rightarrow> description \<Rightarrow> string option \<Rightarrow> string option \<Rightarrow>
   json option \<Rightarrow> db \<Rightarrow> (error + int) \<times> db" where
  "deductCoins userId coins ty descr refType refId meta s =
     (if coins \<le> 0 then (Inl INVALID_AMOUNT, s)
      else
        case wallets s userId of
          None \<Rightarrow> (Inl WALLET_NOT_FOUND, s)
        | Some wallet \<Rightarrow>
            if isLocked wallet then (Inl WALLET_LOCKED, s)
            else if balanceCoins wallet < coins
              then (Inl (INSUFFICIENT_BALANCE coins (balanceCoins wallet)), s)
            else
              let newBalance = balanceCoins wallet - coins;
                  s1 = s\<lparr> wallets := (wallets s)(userId \<mapsto>
                         wallet\<lparr> balanceCoins := newBalance,
                                 totalSpent := totalSpent wallet + coins \<rparr>) \<rparr>;
                  s2 = s1\<lparr> walletTransactions := walletTransactions s1 @
                         [\<lparr> walletId = wallet_id wallet, transactionType = ty,
                            amount = - coins, balanceAfter = newBalance,
                            txDescription = descr, referenceType = refType,
                            referenceId = refId, metadata = meta \<rparr>] \<rparr>
              in (Inr newBalance, s2))"

text \<open>
  \<^verbatim>\<open>transferCoins\<close>. The callback of the outer \<^verbatim>\<open>prisma.$transaction\<close> never uses its
  handle \<^verbatim>\<open>tx\<close>: \<^verbatim>\<open>this.deductCoins\<close> and \<^verbatim>\<open>this.addCoins\<close> each run and commit their own
  transaction on the module's client, so what \<^verbatim>\<open>deductCoins\<close> wrote stays when
  \<^verbatim>\<open>addCoins\<close> throws. \<open>transferId\<close> is the generated reference
  (\<^verbatim>\<open>transfer_<time>_<random>\<close>).
\<close>

definition transferCoins ::
  "string \<Rightarrow> string \<Rightarrow> int \<Rightarrow> string \<Rightarrow> string \<Rightarrow> db \<Rightarrow> (error + string) \<times> db" where
  "transferCoins fromUserId toUserId coins descr transferId s =
     (if fromUserId = toUserId then (Inl INVALID_TRANSFER, s)
      else if coins \<le> 0 then (Inl INVALID_AMOUNT, s)
      else
        case deductCoins fromUserId coins GIFT_SENT (Text descr)
               (Some ''peer_transfer'') (Some transferId) None s of
          (Inl e, s1) \<Rightarrow> (Inl e, s1)
        | (Inr _, s1) \<Rightarrow>
            (case addCoins toUserId coins GIFT_RECEIVED (Text descr)
                    (Some ''peer_transfer'') (Some transferId) None s1 of
               (Inl e, s2) \<Rightarrow> (Inl e, s2)
             | (Inr _, s2) \<Rightarrow> (Inr ''Transfer completed successfully'', s2)))"

text \<open>
  \<^verbatim>\<open>lockWallet\<close> and \<^verbatim>\<open>unlockWallet\<close>: one update of the flag; the ORM's update throws
  when the user has no wallet.
\<close>

definition lockWallet :: "string \<Rightarrow> db \<Rightarrow> (error + string) \<times> db" where
  "lockWallet userId s =
     (case wallets s userId of
        None \<Rightarrow> (Inl RECORD_NOT_FOUND, s)
      | Some w \<Rightarrow> (Inr ''Wallet locked successfully'',
          s\<lparr> wallets := (wallets s)(userId \<mapsto> w\<lparr> isLocked := True \<rparr>) \<rparr>))"

definition unlockWallet :: "string \<Rightarrow> db \<Rightarrow> (error + string) \<times> db" where
  "unlockWallet userId s =
     (case wallets s userId of
        None \<Rightarrow> (Inl RECORD_NOT_FOUND, s)
      | Some w \<Rightarrow> (Inr ''Wallet unlocked successfully'',
          s\<lparr> wallets := (wallets s)(userId \<mapsto> w\<lparr> isLocked := False \<rparr>) \<rparr>))"

section \<open>Double arithmetic of the fee computation\<close>

text \<open>
  The fees of \<^verbatim>\<open>sendGift\<close> are \<^verbatim>\<open>Math.round(totalGiftCost * rate)\<close> on IEEE doubles. A
  finite double is the rational it denotes; a product is the exact product rounded to the
  nearest double, ties to even (\<open>toDouble\<close>): 53 significant bits, the exponent not below
  that of the smallest normal number. Overflow is not modelled; it needs a magnitude of
  \<open>2^1024\<close>, and the products here are below \<open>2^53\<close>.
\<close>

fun bitLength :: "nat \<Rightarrow> nat" where
  "bitLength n = (if n = 0 then 0 else Suc (bitLength (n div 2)))"

declare bitLength.simps [simp del]

text \<open>The exponent \<open>e\<close> with \<open>2^e \<le> x < 2^(e+1)\<close>, for \<open>x > 0\<close>.\<close>

definition binade :: "rat \<Rightarrow> int" where
  "binade x =
     (if 1 \<le> x then int (bitLength (nat \<lfloor>x\<rfloor>)) - 1
      else - int (bitLength (nat (\<lceil>1 / x\<rceil> - 1))))"

definition pow2 :: "int \<Rightarrow> rat" where
  "pow2 e = (if 0 \<le> e then 2 ^ nat e else 1 / 2 ^ nat (- e))"

definition roundHalfEven :: "rat \<Rightarrow> int" where
  "roundHalfEven q =
     (let f = \<lfloor>q\<rfloor>; r = q - of_int f
      in if r < 1 / 2 then f else if 1 / 2 < r then f + 1
         else if even f then f else f + 1)"

definition toDouble :: "rat \<Rightarrow> rat" where
  "toDouble x =
     (if x = 0 then 0
      else
        let a = \<bar>x\<bar>;
            e = max (binade a) (- 1022);
            ulp = pow2 (e - 52)
        in sgn x * of_int (roundHalfEven (a / ulp)) * ulp)"

definition fmul :: "rat \<Rightarrow> rat \<Rightarrow> rat" where
  "fmul a b = toDouble (a * b)"

text \<open>\<^verbatim>\<open>Math.round\<close>: the nearest integer, a tie going up.\<close>

definition Math_round :: "rat \<Rightarrow> int" where
  "Math_round x = \<lfloor>x + 1 / 2\<rfloor>"

text \<open>The literals \<^verbatim>\<open>0.1\<close> and \<^verbatim>\<open>0.015\<close> of the source.\<close>

definition defaultRevenueShare :: rat where
  "defaultRevenueShare = toDouble (1 / 10)"

definition socialWalletFeeRate :: rat where
  "socialWalletFeeRate = toDouble (15 / 1000)"

section \<open>MarketplaceService and GiftService\<close>

text \<open>
  \<^verbatim>\<open>enableMarketplace\<close>: the share must lie in \<open>[0, 1]\<close> and the platform must exist; then
  the marketplace row of the platform is created or overwritten (its branding field,
  which nothing here reads, is left out). The controller's \<^verbatim>\<open>disableMarketplace\<close> calls
  it with share 0 and \<^verbatim>\<open>isEnabled: false\<close>.
\<close>

definition enableMarketplace :: "string \<Rightarrow> rat \<Rightarrow> bool \<Rightarrow> db \<Rightarrow> (error + unit) \<times> db" where
  "enableMarketplace platformId share enabled s =
     (if share < 0 \<or> 1 < share then (Inl INVALID_REVENUE_SHARE, s)
      else case apiClients s platformId of
        None \<Rightarrow> (Inl PLATFORM_NOT_FOUND, s)
      | Some _ \<Rightarrow> (Inr (),
          s\<lparr> giftMarketplaces := (giftMarketplaces s)(platformId \<mapsto>
               \<lparr> revenueShare = share, isEnabled = enabled \<rparr>) \<rparr>))"

definition disableMarketplace :: "string \<Rightarrow> db \<Rightarrow> (error + unit) \<times> db" where
  "disableMarketplace platformId s = enableMarketplace platformId 0 False s"

record sendGiftRequest =
  req_fromUserId :: string
  req_toUserId :: string
  req_giftTypeId :: string
  req_platformId :: string
  req_quantity :: "int option"
  req_message :: "string option"

record sendGiftResult =
  res_transactionId :: string
  res_message :: string
  res_totalCost :: int
  res_platformFee :: int
  res_socialWalletFee :: int

text \<open>\<^verbatim>\<open>quantity = 1\<close> in the destructuring: the default of an absent quantity.\<close>

definition quantityOf :: "sendGiftRequest \<Rightarrow> int" where
  "quantityOf request = (case req_quantity request of None \<Rightarrow> 1 | Some q \<Rightarrow> q)"

text \<open>
  \<^verbatim>\<open>marketplace?.revenueShare || 0.1\<close>: the default applies when the platform has no
  marketplace row and also when the stored share is 0, which is falsy.
\<close>

definition platformFeeRate :: "db \<Rightarrow> string \<Rightarrow> rat" where
  "platformFeeRate s platformId =
     (case giftMarketplaces s platformId of
        None \<Rightarrow> defaultRevenueShare
      | Some marketplace \<Rightarrow>
          if revenueShare marketplace = 0 then defaultRevenueShare
          else revenueShare marketplace)"

definition platformFeeOf :: "int \<Rightarrow> rat \<Rightarrow> int" where
  "platformFeeOf totalGiftCost rate = Math_round (fmul (of_int totalGiftCost) rate)"

definition socialWalletFeeOf :: "int \<Rightarrow> int" where
  "socialWalletFeeOf totalGiftCost =
     Math_round (fmul (of_int totalGiftCost) socialWalletFeeRate)"

text \<open>
  The check of limited stock in \<^verbatim>\<open>sendGift\<close>: it runs when the gift is flagged limited and
  its cap is truthy (present and not 0), and throws when \<^verbatim>\<open>available = maxQuantity -
  soldQuantity\<close> is below the quantity. \<open>Some available\<close> is the throw, with the figure it
  reports.
\<close>

definition stockShortfall :: "giftType \<Rightarrow> int \<Rightarrow> int option" where
  "stockShortfall giftType quantity =
     (if isLimited giftType
      then (case maxQuantity giftType of
              None \<Rightarrow> None
            | Some m \<Rightarrow>
                if m \<noteq> 0
                then (let available = m - soldQuantity giftType
                      in if available < quantity then Some available else None)
                else None)
      else None)"

text \<open>
  The body of the \<^verbatim>\<open>prisma.$transaction\<close> callback of \<^verbatim>\<open>sendGift\<close>. The two wallet calls
  go through \<^verbatim>\<open>this.walletService\<close>, whose functions open their own transactions on the
  module's client and commit on return; only the audit row and the stock update use the
  handle \<^verbatim>\<open>tx\<close>. So an error after \<^verbatim>\<open>deductCoins\<close> rolls back what was written through
  \<^verbatim>\<open>tx\<close> and nothing else: the store it leaves is the one after the last wallet call.
\<close>

definition sendGiftWrites ::
  "sendGiftRequest \<Rightarrow> string \<Rightarrow> giftType \<Rightarrow> int \<Rightarrow> int \<Rightarrow> int \<Rightarrow> int \<Rightarrow> db \<Rightarrow>
   (error + unit) \<times> db" where
  "sendGiftWrites request transactionId giftType quantity totalGiftCost platformFee
       socialWalletFee s =
     (case deductCoins (req_fromUserId request) (totalGiftCost + socialWalletFee) GIFT_SENT
             (SentGift quantity (giftName giftType))
             (Some ''gift_transaction'') (Some transactionId) None s of
        (Inl e, s1) \<Rightarrow> (Inl e, s1)
      | (Inr _, s1) \<Rightarrow>
          let receiverAmount = totalGiftCost - platformFee - socialWalletFee in
          (case addCoins (req_toUserId request) receiverAmount GIFT_RECEIVED
                  (ReceivedGift quantity (giftName giftType))
                  (Some ''gift_transaction'') (Some transactionId) None s1 of
             (Inl e, s2) \<Rightarrow> (Inl e, s2)
           | (Inr _, s2) \<Rightarrow>
               let s3 = s2\<lparr> giftTransactions := giftTransactions s2 @
                          [\<lparr> gt_fromUserId = req_fromUserId request,
                             gt_toUserId = req_toUserId request,
                             gt_giftTypeId = req_giftTypeId request,
                             gt_platformId = req_platformId request,
                             gt_quantity = quantity, gt_totalCoins = totalGiftCost,
                             gt_message = req_message request,
                             gt_transactionId = transactionId,
                             gt_platformFee = platformFee,
                             gt_socialWalletFee = socialWalletFee,
                             gt_status = COMPLETED \<rparr>] \<rparr>
               in if isLimited giftType
                  then (case giftTypes s3 (req_giftTypeId request) of
                          None \<Rightarrow> (Inl RECORD_NOT_FOUND, s2)
                        | Some g \<Rightarrow> (Inr (),
                            s3\<lparr> giftTypes := (giftTypes s3)(req_giftTypeId request \<mapsto>
                                 g\<lparr> soldQuantity := soldQuantity g + quantity \<rparr>) \<rparr>))
                  else (Inr (), s3)))"

text \<open>
  \<^verbatim>\<open>sendGift\<close>. \<open>transactionId\<close> is the generated reference (\<^verbatim>\<open>gift_<time>_<random>\<close>).
  \<^verbatim>\<open>giftType.platformId && ..\<close> and \<^verbatim>\<open>giftType.isLimited && giftType.maxQuantity\<close> test
  truthiness: an absent or empty platform id and an absent or zero cap are falsy.
\<close>

definition sendGift ::
  "sendGiftRequest \<Rightarrow> string \<Rightarrow> db \<Rightarrow> (error + sendGiftResult) \<times> db" where
  "sendGift request transactionId s =
     (let quantity = quantityOf request in
      if req_fromUserId request = req_toUserId request then (Inl INVALID_RECIPIENT, s)
      else if quantity \<le> 0 \<or> 100 < quantity then (Inl INVALID_QUANTITY, s)
      else case giftTypes s (req_giftTypeId request) of
        None \<Rightarrow> (Inl GIFT_NOT_FOUND, s)
      | Some giftType \<Rightarrow>
          if \<not> isActive giftType then (Inl GIFT_NOT_FOUND, s)
          else if (case giftPlatformId giftType of
                     None \<Rightarrow> False
                   | Some p \<Rightarrow> p \<noteq> [] \<and> p \<noteq> req_platformId request)
            then (Inl GIFT_NOT_AVAILABLE, s)
          else
            case stockShortfall giftType quantity of
              Some available \<Rightarrow> (Inl (INSUFFICIENT_QUANTITY available quantity), s)
            | None \<Rightarrow>
                let totalGiftCost = priceCoins giftType * quantity;
                    platformFee = platformFeeOf totalGiftCost
                                    (platformFeeRate s (req_platformId request));
                    socialWalletFee = socialWalletFeeOf totalGiftCost;
                    totalCost = totalGiftCost + socialWalletFee
                in case sendGiftWrites request transactionId giftType quantity
                          totalGiftCost platformFee socialWalletFee s of
                     (Inl e, s') \<Rightarrow> (Inl e, s')
                   | (Inr _, s') \<Rightarrow>
                       (Inr \<lparr> res_transactionId = transactionId,
                              res_message = ''Gift sent successfully'',
                              res_totalCost = totalCost,
                              res_platformFee = platformFee,
                              res_socialWalletFee = socialWalletFee \<rparr>, s'))"

section \<open>StripeService: the payment-succeeded webhook\<close>

text \<open>
  The payment intent of a \<^verbatim>\<open>payment_intent.succeeded\<close> event. The metadata values are
  strings in the source; \<open>pi_coins\<close> holds the integer \<^verbatim>\<open>parseInt\<close> reads from the decimal
  numeral \<^verbatim>\<open>createPaymentIntent\<close> wrote there, and \<open>None\<close> stands for an absent or empty
  value, which \<^verbatim>\<open>!coins\<close> rejects. An empty user id is rejected the same way.
\<close>

record paymentIntent =
  pi_id :: string
  pi_amount :: int
  pi_userId :: "string option"
  pi_coins :: "int option"
  pi_latest_charge :: string

text \<open>
  \<^verbatim>\<open>handlePaymentSuccess\<close>. Missing metadata is logged and the handler returns. Otherwise
  the payment row is updated through the handle \<^verbatim>\<open>tx\<close> (the update throws when the row is
  absent) and the coins are added by \<^verbatim>\<open>walletService.addCoins\<close> in its own transaction;
  when that throws, the update of the payment row is rolled back. The row's status is
  written, never read. \<open>now\<close> is the clock reading of \<^verbatim>\<open>completedAt\<close>.
\<close>

definition handlePaymentSuccess :: "paymentIntent \<Rightarrow> int \<Rightarrow> db \<Rightarrow> (error + unit) \<times> db" where
  "handlePaymentSuccess paymentIntent now s =
     (case (pi_userId paymentIntent, pi_coins paymentIntent) of
        (Some userId, Some coins) \<Rightarrow>
          if userId = [] then (Inr (), s)
          else
            (case stripePayments s (pi_id paymentIntent) of
               None \<Rightarrow> (Inl RECORD_NOT_FOUND, s)
             | Some payment \<Rightarrow>
                 (case addCoins userId coins DEPOSIT (StripePayment (pi_amount paymentIntent))
                         (Some ''stripe_payment'') (Some (pi_id paymentIntent))
                         (Some [(''stripePaymentId'', pi_id paymentIntent),
                                (''stripeChargeId'', pi_latest_charge paymentIntent)]) s of
                    (Inl e, s1) \<Rightarrow> (Inl e, s1)
                  | (Inr _, s1) \<Rightarrow> (Inr (),
                      s1\<lparr> stripePayments := (stripePayments s1)(pi_id paymentIntent \<mapsto>
                            payment\<lparr> sp_status := SUCCEEDED,
                                     sp_completedAt := Some now \<rparr>) \<rparr>)))
      | _ \<Rightarrow> (Inr (), s))"

section \<open>OAuthService: the authorization-code grant\<close>

record tokenResponse =
  tr_accessToken :: string
  tr_tokenType :: string
  tr_expiresIn :: int
  tr_refreshToken :: string
  tr_scope :: "string list"

text \<open>
  \<^verbatim>\<open>handleAuthorizationCodeGrant\<close>. The clock reading \<open>now\<close> (milliseconds) and the two
  random values are arguments. The checks run in the order of the source: code present,
  not used, not expired, client and redirect URI as recorded. The two writes are one
  batch transaction: marking the code used and creating the token row. The token table
  is looked up by \<^verbatim>\<open>findUnique\<close> on \<^verbatim>\<open>token\<close> and on \<^verbatim>\<open>refreshToken\<close>, so both are
  unique; a create that repeats one fails and the batch writes nothing.
\<close>

definition handleAuthorizationCodeGrant ::
  "string \<Rightarrow> string \<Rightarrow> string \<Rightarrow> int \<Rightarrow> string \<Rightarrow> string \<Rightarrow> db \<Rightarrow>
   (error + tokenResponse) \<times> db" where
  "handleAuthorizationCodeGrant clientId code redirectUri now accessToken refreshTokenValue s =
     (case authorizationCodes s code of
        None \<Rightarrow> (Inl INVALID_CODE, s)
      | Some authCode \<Rightarrow>
          if ac_used authCode then (Inl CODE_ALREADY_USED, s)
          else if ac_expiresAt authCode < now then (Inl CODE_EXPIRED, s)
          else if ac_clientId authCode \<noteq> clientId \<or> ac_redirectUri authCode \<noteq> redirectUri
            then (Inl CODE_VALIDATION_FAILED, s)
          else if list_ex (\<lambda>t. at_token t = accessToken \<or> at_refreshToken t = refreshTokenValue)
                    (accessTokens s)
            then (Inl UNIQUE_CONSTRAINT, s)
          else
            (Inr \<lparr> tr_accessToken = accessToken, tr_tokenType = ''Bearer'',
                   tr_expiresIn = 3600, tr_refreshToken = refreshTokenValue,
                   tr_scope = ac_scopes authCode \<rparr>,
             s\<lparr> authorizationCodes := (authorizationCodes s)(code \<mapsto>
                   authCode\<lparr> ac_used := True \<rparr>),
                accessTokens := accessTokens s @
                  [\<lparr> at_userId = ac_userId authCode, at_clientId = ac_clientId authCode,
                     at_token = accessToken, at_refreshToken = refreshTokenValue,
                     at_scopes = ac_scopes authCode,
                     at_expiresAt = now + 60 * 60 * 1000 \<rparr>] \<rparr>))"

definition codeUsed :: "db \<Rightarrow> string \<Rightarrow> bool" where
  "codeUsed s code = (case authorizationCodes s code of None \<Rightarrow> False | Some ac \<Rightarrow> ac_used ac)"

text \<open>A sequence of exchange requests, each with its clock reading and random values.\<close>

record exchange =
  ex_clientId :: string
  ex_code :: string
  ex_redirectUri :: string
  ex_now :: int
  ex_accessToken :: string
  ex_refreshToken :: string

definition exchangeOne :: "exchange \<Rightarrow> db \<Rightarrow> (error + tokenResponse) \<times> db" where
  "exchangeOne x s = handleAuthorizationCodeGrant (ex_clientId x) (ex_code x)
     (ex_redirectUri x) (ex_now x) (ex_accessToken x) (ex_refreshToken x) s"

fun exchangeAll :: "exchange list \<Rightarrow> db \<Rightarrow> (error + tokenResponse) list \<times> db" where
  "exchangeAll [] s = ([], s)"
| "exchangeAll (x # xs) s =
     (let (r, s1) = exchangeOne x s; (rs, s2) = exchangeAll xs s1 in (r # rs, s2))"

text \<open>How many of the requests for \<open>code\<close> were answered with a token.\<close>

definition tokensIssuedFor :: "string \<Rightarrow> exchange list \<Rightarrow> (error + tokenResponse) list \<Rightarrow> nat" where
  "tokensIssuedFor code xs rs =
     length (filter (\<lambda>(x, r). ex_code x = code \<and> \<not> isl r) (zip xs rs))"

section \<open>Runs and example stores\<close>

text \<open>Sequences of ledger operations; a call that throws leaves the store it returns.\<close>

datatype ledgerOp =
    AddCoins string int transactionType description "string option" "string option"
  | DeductCoins string int transactionType description "string option" "string option"

fun applyOp :: "ledgerOp \<Rightarrow> db \<Rightarrow> db" where
  "applyOp (AddCoins u n ty d rt ri) s = snd (addCoins u n ty d rt ri None s)"
| "applyOp (DeductCoins u n ty d rt ri) s = snd (deductCoins u n ty d rt ri None s)"

fun runOps :: "ledgerOp list \<Rightarrow> db \<Rightarrow> db" where
  "runOps [] s = s"
| "runOps (x # xs) s = runOps xs (applyOp x s)"

text \<open>The sum of the signed amounts of the ledger rows of one wallet.\<close>

definition ledgerSum :: "walletTransaction list \<Rightarrow> nat \<Rightarrow> int" where
  "ledgerSum txs wid = sum_list (map amount (filter (\<lambda>t. walletId t = wid) txs))"

text \<open>
  The ledger invariant: every wallet's balance is the sum of its ledger rows and is not
  negative. The remaining conjuncts say that the store hands out each wallet key once:
  keys in use are below the next key, no two users share one, and every ledger row
  belongs to a key handed out.
\<close>

definition ledgerInv :: "db \<Rightarrow> bool" where
  "ledgerInv s \<longleftrightarrow>
     (\<forall>u w. wallets s u = Some w \<longrightarrow>
        balanceCoins w = ledgerSum (walletTransactions s) (wallet_id w) \<and>
        0 \<le> balanceCoins w \<and> wallet_id w < nextWalletId s) \<and>
     (\<forall>u u' w w'. wallets s u = Some w \<and> wallets s u' = Some w' \<and>
        wallet_id w = wallet_id w' \<longrightarrow> u = u') \<and>
     (\<forall>t \<in> set (walletTransactions s). walletId t < nextWalletId s)"

text \<open>Example stores: user A after a deposit of 1000 coins, and the same with A's wallet locked.\<close>

definition walletA1000 :: wallet where
  "walletA1000 = \<lparr> wallet_id = 0, wallet_userId = ''A'', balanceCoins = 1000,
      totalSpent = 0, totalEarned = 1000, isLocked = False \<rparr>"

definition storeA1000 :: db where
  "storeA1000 = snd (addCoins ''A'' 1000 DEPOSIT (Text ''top-up'') None None None empty_db)"

definition storeA1000Locked :: db where
  "storeA1000Locked = snd (lockWallet ''A'' storeA1000)"

text \<open>
  An example run: a deposit to A, a gift debit, a withdrawal that fails for lack of coins
  and a bonus to a second user.
\<close>

definition exampleOps :: "ledgerOp list" where
  "exampleOps =
     [AddCoins ''A'' 1000 DEPOSIT (Text ''top-up'') None None,
      DeductCoins ''A'' 300 GIFT_SENT (Text ''gift'') None None,
      DeductCoins ''A'' 5000 WITHDRAWAL (Text ''cash out'') None None,
      AddCoins ''B'' 50 BONUS (Text ''welcome'') None None]"

text \<open>
  Example stores of the gift flow: one platform, an unlimited gift at 100 coins, a limited
  gift without a cap, and sender A holding 1000 coins. The variants differ in the
  platform's marketplace row: a share of 10, 29, 35 and 100 percent (the controller
  stores \<^verbatim>\<open>revenue_share / 100\<close>), and the row \<^verbatim>\<open>disableMarketplace\<close> leaves.
\<close>

definition giftStore :: db where
  "giftStore = snd (addCoins ''A'' 1000 DEPOSIT (Text ''top-up'') None None None
     (empty_db\<lparr>
        apiClients := [''platform1'' \<mapsto> \<lparr> clientName = ''Platform One'', clientIsActive = True \<rparr>],
        giftTypes := [
          ''rose'' \<mapsto> \<lparr> giftName = ''Rose'', isActive = True, giftPlatformId = None,
                       priceCoins = 100, isLimited = False, maxQuantity = None,
                       soldQuantity = 0 \<rparr>,
          ''crown'' \<mapsto> \<lparr> giftName = ''Crown'', isActive = True, giftPlatformId = None,
                        priceCoins = 10, isLimited = True, maxQuantity = None,
                        soldQuantity = 7 \<rparr>] \<rparr>))"

definition giftStore10 :: db where
  "giftStore10 = snd (enableMarketplace ''platform1'' (toDouble (10 / 100)) True giftStore)"

definition giftStore100 :: db where
  "giftStore100 = snd (enableMarketplace ''platform1'' (toDouble (100 / 100)) True giftStore)"

definition giftStore29 :: db where
  "giftStore29 = snd (enableMarketplace ''platform1'' (toDouble (29 / 100)) True giftStore)"

definition giftStore35 :: db where
  "giftStore35 = snd (enableMarketplace ''platform1'' (toDouble (35 / 100)) True giftStore)"

definition giftStoreDisabled :: db where
  "giftStoreDisabled = snd (disableMarketplace ''platform1'' giftStore)"

definition giftRequest :: "string \<Rightarrow> int \<Rightarrow> sendGiftRequest" where
  "giftRequest giftTypeId q = \<lparr> req_fromUserId = ''A'', req_toUserId = ''B'',
      req_giftTypeId = giftTypeId, req_platformId = ''platform1'',
      req_quantity = Some q, req_message = None \<rparr>"

text \<open>
  Example stores of the webhook and of the code grant: a pending payment of 500 coins for
  user A, and an authorization code of client X that expires at time 600000.
\<close>

definition paymentStore :: db where
  "paymentStore = empty_db\<lparr> stripePayments := [''pi_1'' \<mapsto>
     \<lparr> sp_userId = ''A'', sp_amount = 500, sp_coins = 500, sp_status = PENDING,
       sp_completedAt = None \<rparr>] \<rparr>"

definition paymentEvent :: paymentIntent where
  "paymentEvent = \<lparr> pi_id = ''pi_1'', pi_amount = 500, pi_userId = Some ''A'',
     pi_coins = Some 500, pi_latest_charge = ''ch_1'' \<rparr>"

definition codeStore :: db where
  "codeStore = empty_db\<lparr> authorizationCodes := [''C'' \<mapsto>
     \<lparr> ac_userId = ''A'', ac_clientId = ''X'', ac_redirectUri = ''https://x.example/cb'',
       ac_scopes = [''profile''], ac_expiresAt = 600000, ac_used = False \<rparr>] \<rparr>"

definition exchangeC :: "int \<Rightarrow> string \<Rightarrow> string \<Rightarrow> exchange" where
  "exchangeC now tok refresh = \<lparr> ex_clientId = ''X'', ex_code = ''C'',
     ex_redirectUri = ''https://x.example/cb'', ex_now = now, ex_accessToken = tok,
     ex_refreshToken = refresh \<rparr>"

definition usedCodeStore :: db where
  "usedCodeStore = snd (exchangeOne (exchangeC 1000 ''token1'' ''refresh1'') codeStore)"

section \<open>Failed debits\<close>

lemma storeA1000_wallet: "wallets storeA1000 ''A'' = Some walletA1000"
  by (simp add: storeA1000_def addCoins_def empty_db_def newWallet_def walletA1000_def)

lemma storeA1000Locked_wallet:
  "wallets storeA1000Locked ''A'' = Some (walletA1000\<lparr> isLocked := True \<rparr>)"
  by (simp add: storeA1000Locked_def lockWallet_def storeA1000_wallet)

text \<open>
  C8, as amended. A debit of \<open>n > 0\<close> coins from an unlocked wallet whose balance \<open>b\<close> is
  below \<open>n\<close> fails with \<open>INSUFFICIENT_BALANCE\<close> carrying required \<open>n\<close> and available \<open>b\<close>,
  and leaves the whole store (balance, lifetime-spent counter, ledger) as it was.
\<close>

theorem deductCoins_insufficient:
  assumes "wallets s userId = Some w" and "\<not> isLocked w" and "0 < n"
    and "balanceCoins w < n"
  shows "deductCoins userId n ty descr refType refId meta s
           = (Inl (INSUFFICIENT_BALANCE n (balanceCoins w)), s)"
  using assms by (simp add: deductCoins_def)

text \<open>
  The scenario of the specification: wallet A holds 1000 coins, a debit of 1500 fails with
  required 1500 and available 1000, and the balance stays 1000.
\<close>

theorem deductCoins_insufficient_witness:
  "deductCoins ''A'' 1500 WITHDRAWAL (Text ''cash out'') None None None storeA1000
     = (Inl (INSUFFICIENT_BALANCE 1500 1000), storeA1000)
   \<and> balanceOf storeA1000 ''A'' = 1000"
proof -
  have unlocked: "\<not> isLocked walletA1000" by (simp add: walletA1000_def)
  have pos: "(0::int) < 1500" by simp
  have low: "balanceCoins walletA1000 < 1500" by (simp add: walletA1000_def)
  show ?thesis
    using deductCoins_insufficient [OF storeA1000_wallet unlocked pos low,
        of WITHDRAWAL "Text ''cash out''" None None None]
    by (simp add: balanceOf_def storeA1000_wallet walletA1000_def)
qed

text \<open>
  The claim as stated fails on a locked wallet: with balance 1000 and a debit of 1500 the
  lock check comes first and the error is \<open>WALLET_LOCKED\<close>.
\<close>

theorem deductCoins_locked_counterexample:
  "balanceOf storeA1000Locked ''A'' = 1000
   \<and> fst (deductCoins ''A'' 1500 WITHDRAWAL (Text ''cash out'') None None None storeA1000Locked)
       = Inl WALLET_LOCKED
   \<and> fst (deductCoins ''A'' 1500 WITHDRAWAL (Text ''cash out'') None None None storeA1000Locked)
       \<noteq> Inl (INSUFFICIENT_BALANCE 1500 1000)"
  by (simp add: balanceOf_def deductCoins_def storeA1000Locked_wallet walletA1000_def)

section \<open>Transfers\<close>

text \<open>
  C9. \<open>transferCoins\<close> fails with \<open>INVALID_TRANSFER\<close> when sender and receiver are the same
  user, whatever the amount; otherwise it fails with \<open>INVALID_AMOUNT\<close> when the amount is
  not positive. Both results hold for every store and return it as it was: no row is
  read or written.
\<close>

theorem transferCoins_guards:
  "(fromUserId = toUserId \<longrightarrow>
      transferCoins fromUserId toUserId n descr transferId s = (Inl INVALID_TRANSFER, s))
   \<and> (fromUserId \<noteq> toUserId \<and> n \<le> 0 \<longrightarrow>
      transferCoins fromUserId toUserId n descr transferId s = (Inl INVALID_AMOUNT, s))"
  by (simp add: transferCoins_def)

theorem transferCoins_guards_witness:
  "transferCoins ''A'' ''A'' (- 5) ''self'' ''transfer_1'' storeA1000
     = (Inl INVALID_TRANSFER, storeA1000)
   \<and> transferCoins ''A'' ''B'' 0 ''nothing'' ''transfer_2'' storeA1000
     = (Inl INVALID_AMOUNT, storeA1000)"
  using transferCoins_guards [of "''A''" "''A''" "- 5" "''self''" "''transfer_1''" storeA1000]
    transferCoins_guards [of "''A''" "''B''" 0 "''nothing''" "''transfer_2''" storeA1000]
  by simp

text \<open>
  C3. A transfer of \<open>n > 0\<close> coins between two different users either succeeds, and then the
  sender's balance is \<open>n\<close> lower and the receiver's \<open>n\<close> higher than before, or fails, and
  then the store (both balances, both histories) is as it was.
\<close>

theorem transferCoins_balances:
  assumes "fromUserId \<noteq> toUserId" and "0 < n"
  shows "case transferCoins fromUserId toUserId n descr transferId s of
           (Inr _, s') \<Rightarrow> balanceOf s' fromUserId = balanceOf s fromUserId - n
                        \<and> balanceOf s' toUserId = balanceOf s toUserId + n
         | (Inl _, s') \<Rightarrow> s' = s"
  using assms
  by (auto simp: transferCoins_def deductCoins_def addCoins_def balanceOf_def newWallet_def
        Let_def split: option.splits)

theorem transferCoins_balances_witness:
  "fst (transferCoins ''A'' ''B'' 300 ''rent'' ''transfer_3'' storeA1000)
     = Inr ''Transfer completed successfully''
   \<and> balanceOf (snd (transferCoins ''A'' ''B'' 300 ''rent'' ''transfer_3'' storeA1000)) ''A'' = 700
   \<and> balanceOf (snd (transferCoins ''A'' ''B'' 300 ''rent'' ''transfer_3'' storeA1000)) ''B'' = 300
   \<and> transferCoins ''B'' ''A'' 300 ''back'' ''transfer_4'' storeA1000
       = (Inl WALLET_NOT_FOUND, storeA1000)"
proof -
  have ne: "''A'' \<noteq> ''B''" and ne': "''B'' \<noteq> ''A''" by simp_all
  have pos: "(0::int) < 300" by simp
  have ok: "fst (transferCoins ''A'' ''B'' 300 ''rent'' ''transfer_3'' storeA1000)
              = Inr ''Transfer completed successfully''"
    by (simp add: transferCoins_def deductCoins_def addCoins_def storeA1000_wallet
          walletA1000_def Let_def split: option.splits)
  have nowallet: "wallets storeA1000 ''B'' = None"
    by (simp add: storeA1000_def addCoins_def empty_db_def newWallet_def)
  have bad: "fst (transferCoins ''B'' ''A'' 300 ''back'' ''transfer_4'' storeA1000)
              = Inl WALLET_NOT_FOUND"
    by (simp add: transferCoins_def deductCoins_def nowallet)
  have bal: "balanceOf storeA1000 ''A'' = 1000" "balanceOf storeA1000 ''B'' = 0"
    by (simp_all add: balanceOf_def storeA1000_wallet walletA1000_def nowallet)
  show ?thesis
    using transferCoins_balances [OF ne pos, where descr = "''rent''"
        and transferId = "''transfer_3''" and s = storeA1000]
      transferCoins_balances [OF ne' pos, where descr = "''back''"
        and transferId = "''transfer_4''" and s = storeA1000]
      ok bad bal
    by (auto split: prod.splits sum.splits)
qed

section \<open>The ledger invariant\<close>

lemma ledgerSum_append:
  "ledgerSum (txs @ [t]) wid = ledgerSum txs wid + (if walletId t = wid then amount t else 0)"
  by (simp add: ledgerSum_def)

lemma ledgerSum_fresh:
  "\<forall>t \<in> set txs. walletId t < wid \<Longrightarrow> ledgerSum txs wid = 0"
  by (induction txs) (auto simp: ledgerSum_def)

lemma ledgerInv_empty: "ledgerInv empty_db"
  by (simp add: ledgerInv_def empty_db_def)

lemma ledgerInvD:
  assumes "ledgerInv s"
  shows "wallets s u = Some w \<Longrightarrow> balanceCoins w = ledgerSum (walletTransactions s) (wallet_id w)"
    and "wallets s u = Some w \<Longrightarrow> 0 \<le> balanceCoins w"
    and "wallets s u = Some w \<Longrightarrow> wallet_id w < nextWalletId s"
    and "wallets s u = Some w \<Longrightarrow> wallets s u' = Some w' \<Longrightarrow> wallet_id w = wallet_id w' \<Longrightarrow> u = u'"
    and "t \<in> set (walletTransactions s) \<Longrightarrow> walletId t < nextWalletId s"
  using assms unfolding ledgerInv_def by blast+

lemma ledgerInvI:
  assumes "\<And>u w. wallets s u = Some w \<Longrightarrow>
             balanceCoins w = ledgerSum (walletTransactions s) (wallet_id w)"
    and "\<And>u w. wallets s u = Some w \<Longrightarrow> 0 \<le> balanceCoins w"
    and "\<And>u w. wallets s u = Some w \<Longrightarrow> wallet_id w < nextWalletId s"
    and "\<And>u u' w w'. wallets s u = Some w \<Longrightarrow> wallets s u' = Some w' \<Longrightarrow>
             wallet_id w = wallet_id w' \<Longrightarrow> u = u'"
    and "\<And>t. t \<in> set (walletTransactions s) \<Longrightarrow> walletId t < nextWalletId s"
  shows "ledgerInv s"
  using assms unfolding ledgerInv_def by blast

text \<open>A write of one wallet's balance together with its ledger row keeps the invariant.\<close>

lemma ledgerInv_post:
  assumes inv: "ledgerInv s" and w: "wallets s u = Some w" and nonneg: "0 \<le> balanceCoins w + k"
    and that: "wallet_id w' = wallet_id w" "balanceCoins w' = balanceCoins w + k"
       "walletId t = wallet_id w" "amount t = k"
  shows "ledgerInv (s\<lparr> wallets := (wallets s)(u \<mapsto> w'),
                        walletTransactions := walletTransactions s @ [t] \<rparr>)"
proof (rule ledgerInvI)
  let ?s' = "s\<lparr> wallets := (wallets s)(u \<mapsto> w'), walletTransactions := walletTransactions s @ [t] \<rparr>"
  fix v x assume vx: "wallets ?s' v = Some x"
  show "balanceCoins x = ledgerSum (walletTransactions ?s') (wallet_id x)"
  proof (cases "v = u")
    case True
    with vx that ledgerInvD(1)[OF inv w] show ?thesis by (simp add: ledgerSum_append)
  next
    case False
    with vx have old: "wallets s v = Some x" by simp
    from ledgerInvD(4)[OF inv old w] False have "wallet_id x \<noteq> wallet_id w" by blast
    with that ledgerInvD(1)[OF inv old] show ?thesis by (simp add: ledgerSum_append)
  qed
  show "0 \<le> balanceCoins x"
    using vx that nonneg ledgerInvD(2)[OF inv, of v x] by (cases "v = u") auto
  show "wallet_id x < nextWalletId ?s'"
    using vx that ledgerInvD(3)[OF inv w] ledgerInvD(3)[OF inv, of v x] by (cases "v = u") auto
next
  let ?s' = "s\<lparr> wallets := (wallets s)(u \<mapsto> w'), walletTransactions := walletTransactions s @ [t] \<rparr>"
  fix v v' x x'
  assume a: "wallets ?s' v = Some x" "wallets ?s' v' = Some x'" "wallet_id x = wallet_id x'"
  show "v = v'"
  proof (cases "v = u")
    case vu: True
    show ?thesis
    proof (cases "v' = u")
      case True
      with vu show ?thesis by simp
    next
      case False
      with a(2) have old: "wallets s v' = Some x'" by simp
      from vu a(1) have "x = w'" by simp
      with a(3) that(1) have "wallet_id w = wallet_id x'" by simp
      from ledgerInvD(4)[OF inv w old this] vu show ?thesis by simp
    qed
  next
    case nvu: False
    with a(1) have old: "wallets s v = Some x" by simp
    show ?thesis
    proof (cases "v' = u")
      case True
      with a(2) have "x' = w'" by simp
      with a(3) that(1) have "wallet_id x = wallet_id w" by simp
      from ledgerInvD(4)[OF inv old w this] True show ?thesis by simp
    next
      case False
      with a(2) have old': "wallets s v' = Some x'" by simp
      from ledgerInvD(4)[OF inv old old' a(3)] show ?thesis .
    qed
  qed
next
  let ?s' = "s\<lparr> wallets := (wallets s)(u \<mapsto> w'), walletTransactions := walletTransactions s @ [t] \<rparr>"
  fix r assume "r \<in> set (walletTransactions ?s')"
  then show "walletId r < nextWalletId ?s'"
    using that ledgerInvD(3)[OF inv w] ledgerInvD(5)[OF inv, of r] by auto
qed

text \<open>Creating the zero wallet of a user who has none keeps the invariant.\<close>

lemma ledgerInv_create:
  assumes inv: "ledgerInv s" and none: "wallets s u = None"
  shows "ledgerInv (s\<lparr> wallets := (wallets s)(u \<mapsto> newWallet u s),
                        nextWalletId := Suc (nextWalletId s) \<rparr>)"
proof (rule ledgerInvI)
  let ?s' = "s\<lparr> wallets := (wallets s)(u \<mapsto> newWallet u s), nextWalletId := Suc (nextWalletId s) \<rparr>"
  fix v x assume vx: "wallets ?s' v = Some x"
  show "balanceCoins x = ledgerSum (walletTransactions ?s') (wallet_id x)"
    using vx ledgerInvD(1)[OF inv, of v x] ledgerInvD(5)[OF inv]
    by (cases "v = u") (auto simp: newWallet_def ledgerSum_fresh)
  show "0 \<le> balanceCoins x"
    using vx ledgerInvD(2)[OF inv, of v x] by (cases "v = u") (auto simp: newWallet_def)
  show "wallet_id x < nextWalletId ?s'"
    using vx ledgerInvD(3)[OF inv, of v x] by (cases "v = u") (auto simp: newWallet_def)
next
  let ?s' = "s\<lparr> wallets := (wallets s)(u \<mapsto> newWallet u s), nextWalletId := Suc (nextWalletId s) \<rparr>"
  fix v v' x x'
  assume a: "wallets ?s' v = Some x" "wallets ?s' v' = Some x'" "wallet_id x = wallet_id x'"
  show "v = v'"
  proof (cases "v = u")
    case vu: True
    show ?thesis
    proof (cases "v' = u")
      case True
      with vu show ?thesis by simp
    next
      case False
      with a(2) have old: "wallets s v' = Some x'" by simp
      from vu a(1) have "wallet_id x = nextWalletId s" by (auto simp: newWallet_def)
      with a(3) ledgerInvD(3)[OF inv old] show ?thesis by simp
    qed
  next
    case nvu: False
    with a(1) have old: "wallets s v = Some x" by simp
    show ?thesis
    proof (cases "v' = u")
      case True
      with a(2) have "wallet_id x' = nextWalletId s" by (auto simp: newWallet_def)
      with a(3) ledgerInvD(3)[OF inv old] show ?thesis by simp
    next
      case False
      with a(2) have old': "wallets s v' = Some x'" by simp
      from ledgerInvD(4)[OF inv old old' a(3)] show ?thesis .
    qed
  qed
next
  let ?s' = "s\<lparr> wallets := (wallets s)(u \<mapsto> newWallet u s), nextWalletId := Suc (nextWalletId s) \<rparr>"
  fix r assume "r \<in> set (walletTransactions ?s')"
  then show "walletId r < nextWalletId ?s'"
    using ledgerInvD(5)[OF inv, of r] by auto
qed

lemma addCoins_ledgerInv:
  assumes inv: "ledgerInv s"
  shows "ledgerInv (snd (addCoins u n ty d rt ri m s))"
proof (cases "n \<le> 0")
  case True
  then show ?thesis using inv by (simp add: addCoins_def)
next
  case pos: False
  show ?thesis
  proof (cases "wallets s u")
    case None
    let ?s1 = "s\<lparr> wallets := (wallets s)(u \<mapsto> newWallet u s), nextWalletId := Suc (nextWalletId s) \<rparr>"
    have inv1: "ledgerInv ?s1" by (rule ledgerInv_create [OF inv None])
    have w1: "wallets ?s1 u = Some (newWallet u s)" by simp
    have "0 \<le> balanceCoins (newWallet u s) + n" using pos by (simp add: newWallet_def)
    from ledgerInv_post [OF inv1 w1 this, where
        w' = "(newWallet u s)\<lparr> balanceCoins := balanceCoins (newWallet u s) + n,
                totalEarned := totalEarned (newWallet u s) + n \<rparr>"
        and t = "\<lparr> walletId = wallet_id (newWallet u s), transactionType = ty, amount = n,
                balanceAfter = balanceCoins (newWallet u s) + n, txDescription = d,
                referenceType = rt, referenceId = ri, metadata = m \<rparr>"]
    show ?thesis using pos None by (simp add: addCoins_def Let_def)
  next
    case (Some w)
    have "0 \<le> balanceCoins w + n" using pos ledgerInvD(2)[OF inv Some] by simp
    from ledgerInv_post [OF inv Some this, where
        w' = "w\<lparr> balanceCoins := balanceCoins w + n, totalEarned := totalEarned w + n \<rparr>"
        and t = "\<lparr> walletId = wallet_id w, transactionType = ty, amount = n,
                balanceAfter = balanceCoins w + n, txDescription = d,
                referenceType = rt, referenceId = ri, metadata = m \<rparr>"]
    show ?thesis using pos Some by (simp add: addCoins_def Let_def)
  qed
qed

lemma deductCoins_ledgerInv:
  assumes inv: "ledgerInv s"
  shows "ledgerInv (snd (deductCoins u n ty d rt ri m s))"
proof (cases "wallets s u")
  case None
  then show ?thesis using inv by (simp add: deductCoins_def)
next
  case (Some w)
  show ?thesis
  proof (cases "n \<le> 0 \<or> isLocked w \<or> balanceCoins w < n")
    case True
    then show ?thesis using inv Some by (auto simp: deductCoins_def)
  next
    case False
    then have "0 \<le> balanceCoins w + (- n)" by simp
    from ledgerInv_post [OF inv Some this, where
        w' = "w\<lparr> balanceCoins := balanceCoins w - n, totalSpent := totalSpent w + n \<rparr>"
        and t = "\<lparr> walletId = wallet_id w, transactionType = ty, amount = - n,
                balanceAfter = balanceCoins w - n, txDescription = d,
                referenceType = rt, referenceId = ri, metadata = m \<rparr>"]
    show ?thesis using False Some by (simp add: deductCoins_def Let_def)
  qed
qed

lemma applyOp_ledgerInv: "ledgerInv s \<Longrightarrow> ledgerInv (applyOp x s)"
  by (cases x) (simp_all add: addCoins_ledgerInv deductCoins_ledgerInv)

text \<open>
  C4. From a store that satisfies the ledger invariant (the empty store does), every
  sequence of \<open>addCoins\<close> and \<open>deductCoins\<close> calls, failed ones included, leads to a store
  where each wallet's balance is the sum of the signed amounts of its ledger rows and is
  not negative, and where the invariant holds again.
\<close>

theorem ledger_invariant:
  assumes "ledgerInv s" and "wallets (runOps ops s) u = Some w"
  shows "balanceCoins w = ledgerSum (walletTransactions (runOps ops s)) (wallet_id w)
         \<and> 0 \<le> balanceCoins w \<and> ledgerInv (runOps ops s)"
proof -
  have "ledgerInv (runOps ops s)"
    using assms(1) by (induction ops arbitrary: s) (simp_all add: applyOp_ledgerInv)
  with assms(2) show ?thesis
    using ledgerInvD(1,2) by blast
qed

theorem ledger_invariant_witness:
  "wallets (runOps exampleOps empty_db) ''A''
     = Some \<lparr> wallet_id = 0, wallet_userId = ''A'', balanceCoins = 700,
              totalSpent = 300, totalEarned = 1000, isLocked = False \<rparr>
   \<and> ledgerSum (walletTransactions (runOps exampleOps empty_db)) 0 = 700
   \<and> ledgerInv (runOps exampleOps empty_db)"
proof -
  have w: "wallets (runOps exampleOps empty_db) ''A''
     = Some \<lparr> wallet_id = 0, wallet_userId = ''A'', balanceCoins = 700,
              totalSpent = 300, totalEarned = 1000, isLocked = False \<rparr>"
    by (simp add: exampleOps_def empty_db_def addCoins_def deductCoins_def newWallet_def)
  show ?thesis
    using ledger_invariant [OF ledgerInv_empty w] w by simp
qed

section \<open>Gift sends\<close>

text \<open>The doubles that the literals \<^verbatim>\<open>0.1\<close> and \<^verbatim>\<open>0.015\<close> denote.\<close>

lemma fee_rate_literals:
  "defaultRevenueShare = 3602879701896397 / 2 ^ 55"
  "socialWalletFeeRate = 1080863910568919 / 2 ^ 56"
  by code_simp+

lemma deductCoins_success:
  assumes "deductCoins u n ty d rt ri m s = (Inr b, s1)"
  shows "balanceOf s1 u = balanceOf s u - n"
    and "v \<noteq> u \<Longrightarrow> balanceOf s1 v = balanceOf s v"
    and "giftTypes s1 = giftTypes s"
    and "giftTransactions s1 = giftTransactions s"
  using assms
  by (auto simp: deductCoins_def balanceOf_def Let_def split: if_splits option.splits)

lemma deductCoins_failure:
  "deductCoins u n ty d rt ri m s = (Inl e, s1) \<Longrightarrow> s1 = s"
  by (auto simp: deductCoins_def Let_def split: if_splits option.splits)

lemma addCoins_success:
  assumes "addCoins u n ty d rt ri m s = (Inr b, s1)"
  shows "balanceOf s1 u = balanceOf s u + n"
    and "v \<noteq> u \<Longrightarrow> balanceOf s1 v = balanceOf s v"
    and "giftTypes s1 = giftTypes s"
    and "giftTransactions s1 = giftTransactions s"
  using assms
  by (auto simp: addCoins_def balanceOf_def newWallet_def Let_def split: if_splits option.splits)

lemma addCoins_failure:
  "addCoins u n ty d rt ri m s = (Inl e, s1) \<Longrightarrow> s1 = s \<and> n \<le> 0"
  by (auto simp: addCoins_def Let_def split: if_splits option.splits)

lemma sendGiftWrites_success:
  assumes ok: "sendGiftWrites request t g q totalGiftCost pf sf s = (Inr (), s')"
    and ne: "req_fromUserId request \<noteq> req_toUserId request"
  shows "balanceOf s' (req_fromUserId request) = balanceOf s (req_fromUserId request) - (totalGiftCost + sf)"
    and "balanceOf s' (req_toUserId request) = balanceOf s (req_toUserId request) + (totalGiftCost - pf - sf)"
    and "isLimited g \<Longrightarrow> \<exists>g0. giftTypes s (req_giftTypeId request) = Some g0 \<and>
           giftTypes s' (req_giftTypeId request) = Some (g0\<lparr> soldQuantity := soldQuantity g0 + q \<rparr>)"
    and "\<not> isLimited g \<Longrightarrow> giftTypes s' = giftTypes s"
proof -
  from ok obtain b1 s1 where d: "deductCoins (req_fromUserId request) (totalGiftCost + sf) GIFT_SENT
        (SentGift q (giftName g)) (Some ''gift_transaction'') (Some t) None s = (Inr b1, s1)"
    by (auto simp: sendGiftWrites_def split: prod.splits sum.splits)
  with ok obtain b2 s2 where a: "addCoins (req_toUserId request) (totalGiftCost - pf - sf) GIFT_RECEIVED
        (ReceivedGift q (giftName g)) (Some ''gift_transaction'') (Some t) None s1 = (Inr b2, s2)"
    by (auto simp: sendGiftWrites_def Let_def split: prod.splits sum.splits)
  have w: "wallets s' = wallets s2"
    using ok d a by (auto simp: sendGiftWrites_def Let_def split: if_splits option.splits)
  then have bal: "balanceOf s' = balanceOf s2" by (auto simp: balanceOf_def fun_eq_iff)
  show "balanceOf s' (req_fromUserId request) = balanceOf s (req_fromUserId request) - (totalGiftCost + sf)"
    using bal deductCoins_success(1)[OF d] addCoins_success(2)[OF a ne] by simp
  show "balanceOf s' (req_toUserId request) = balanceOf s (req_toUserId request) + (totalGiftCost - pf - sf)"
    using bal deductCoins_success(2)[OF d ne[symmetric]] addCoins_success(1)[OF a] by simp
  have gt: "giftTypes s2 = giftTypes s"
    using deductCoins_success(3)[OF d] addCoins_success(3)[OF a] by simp
  show "\<exists>g0. giftTypes s (req_giftTypeId request) = Some g0 \<and>
           giftTypes s' (req_giftTypeId request) = Some (g0\<lparr> soldQuantity := soldQuantity g0 + q \<rparr>)"
    if "isLimited g"
    using that ok d a gt by (auto simp: sendGiftWrites_def Let_def split: if_splits option.splits)
  show "giftTypes s' = giftTypes s" if "\<not> isLimited g"
    using that ok d a gt by (auto simp: sendGiftWrites_def Let_def split: if_splits option.splits)
qed

lemma sendGift_success:
  assumes ok: "sendGift request t s = (Inr res, s')"
  obtains g where "giftTypes s (req_giftTypeId request) = Some g"
    and "req_fromUserId request \<noteq> req_toUserId request"
    and "0 < quantityOf request" and "quantityOf request \<le> 100"
    and "sendGiftWrites request t g (quantityOf request) (priceCoins g * quantityOf request)
           (platformFeeOf (priceCoins g * quantityOf request) (platformFeeRate s (req_platformId request)))
           (socialWalletFeeOf (priceCoins g * quantityOf request)) s = (Inr (), s')"
    and "res = \<lparr> res_transactionId = t, res_message = ''Gift sent successfully'',
                 res_totalCost = priceCoins g * quantityOf request
                    + socialWalletFeeOf (priceCoins g * quantityOf request),
                 res_platformFee = platformFeeOf (priceCoins g * quantityOf request)
                    (platformFeeRate s (req_platformId request)),
                 res_socialWalletFee = socialWalletFeeOf (priceCoins g * quantityOf request) \<rparr>"
  using ok
  by (auto simp: sendGift_def Let_def split: if_splits option.splits prod.splits sum.splits)

lemma sendGiftWrites_error:
  "sendGiftWrites request t g q totalGiftCost pf sf s = (Inl e, s') \<Longrightarrow>
     e \<noteq> INSUFFICIENT_QUANTITY a r"
  by (auto simp: sendGiftWrites_def deductCoins_def addCoins_def Let_def
        split: if_splits option.splits prod.splits sum.splits)

text \<open>
  The fees are rounded double products, not rounded exact products: 50 coins at 29 percent
  give 14 where the exact product 14.5 rounds to 15, and 10 coins at 35 percent give 4
  where the exact product with the stored double, just below 3.5, rounds to 3.
\<close>

lemma fee_rounding_examples:
  "platformFeeOf 50 (toDouble (29 / 100)) = 14" "Math_round (50 * (29 / 100)) = 15"
  "platformFeeOf 10 (toDouble (35 / 100)) = 4" "Math_round (10 * toDouble (35 / 100)) = 3"
  by code_simp+

text \<open>
  C6, as amended. For every gift send that succeeds, of a gift with unit price \<open>p\<close> at
  quantity \<open>q\<close>, where the rate \<open>r\<close> is the platform's stored revenue share if the platform
  has a marketplace row with a share other than 0, and the double 0.1 otherwise: the total
  is \<open>p * q\<close>; the platform fee is \<^verbatim>\<open>Math.round(total * r)\<close> and the social wallet fee is
  \<^verbatim>\<open>Math.round(total * 0.015)\<close> as the code computes them, that is, the product is the
  IEEE double product \<open>fmul\<close> (the exact product of the total and the stored double,
  rounded to the nearest double, ties to even) and \<open>Math_round\<close> takes the nearest integer,
  a tie going up; the sender's balance falls by total plus social wallet fee and the
  receiver's rises by total minus both fees; the result reports the same figures.
\<close>

theorem sendGift_amounts:
  assumes "sendGift request transactionId s = (Inr res, s')"
    and "giftTypes s (req_giftTypeId request) = Some g"
    and "totalGiftCost = priceCoins g * quantityOf request"
    and "platformFee = Math_round (fmul (of_int totalGiftCost) (platformFeeRate s (req_platformId request)))"
    and "socialWalletFee = Math_round (fmul (of_int totalGiftCost) socialWalletFeeRate)"
  shows "balanceOf s' (req_fromUserId request)
           = balanceOf s (req_fromUserId request) - (totalGiftCost + socialWalletFee)
       \<and> balanceOf s' (req_toUserId request)
           = balanceOf s (req_toUserId request) + (totalGiftCost - platformFee - socialWalletFee)
       \<and> res_totalCost res = totalGiftCost + socialWalletFee
       \<and> res_platformFee res = platformFee
       \<and> res_socialWalletFee res = socialWalletFee"
proof -
  from assms(1) obtain g' where g': "giftTypes s (req_giftTypeId request) = Some g'"
    and ne: "req_fromUserId request \<noteq> req_toUserId request"
    and w: "sendGiftWrites request transactionId g' (quantityOf request)
           (priceCoins g' * quantityOf request)
           (platformFeeOf (priceCoins g' * quantityOf request) (platformFeeRate s (req_platformId request)))
           (socialWalletFeeOf (priceCoins g' * quantityOf request)) s = (Inr (), s')"
    and r: "res = \<lparr> res_transactionId = transactionId, res_message = ''Gift sent successfully'',
                 res_totalCost = priceCoins g' * quantityOf request
                    + socialWalletFeeOf (priceCoins g' * quantityOf request),
                 res_platformFee = platformFeeOf (priceCoins g' * quantityOf request)
                    (platformFeeRate s (req_platformId request)),
                 res_socialWalletFee = socialWalletFeeOf (priceCoins g' * quantityOf request) \<rparr>"
    by (rule sendGift_success)
  from g' assms(2) have "g' = g" by simp
  with assms(3) have tot: "priceCoins g' * quantityOf request = totalGiftCost" by simp
  from assms(4,5) have pf: "platformFeeOf totalGiftCost
        (platformFeeRate s (req_platformId request)) = platformFee"
    and sf: "socialWalletFeeOf totalGiftCost = socialWalletFee"
    by (simp_all add: platformFeeOf_def socialWalletFeeOf_def)
  show ?thesis
    using sendGiftWrites_success(1,2)[OF w ne] r unfolding tot pf sf by simp
qed


text \<open>
  The scenario of the specification: price 100, share 10 percent, quantity 2. The sender
  pays 203, the platform fee is 20, the receiver gets 177. Two sends where the double
  product decides the fee: 5 gifts of 10 coins at 29 percent (fee 14, social wallet fee 1,
  sender pays 51, receiver gets 35) and one gift of 10 coins at 35 percent (fee 4, social
  wallet fee 0, sender pays 10, receiver gets 6).
\<close>

theorem sendGift_amounts_witness:
  "fst (sendGift (giftRequest ''rose'' 2) ''gift_1'' giftStore10)
     = Inr \<lparr> res_transactionId = ''gift_1'', res_message = ''Gift sent successfully'',
             res_totalCost = 203, res_platformFee = 20, res_socialWalletFee = 3 \<rparr>
   \<and> balanceOf giftStore10 ''A'' = 1000
   \<and> balanceOf (snd (sendGift (giftRequest ''rose'' 2) ''gift_1'' giftStore10)) ''A'' = 797
   \<and> balanceOf giftStore10 ''B'' = 0
   \<and> balanceOf (snd (sendGift (giftRequest ''rose'' 2) ''gift_1'' giftStore10)) ''B'' = 177
   \<and> fst (sendGift (giftRequest ''crown'' 5) ''gift_3'' giftStore29)
     = Inr \<lparr> res_transactionId = ''gift_3'', res_message = ''Gift sent successfully'',
             res_totalCost = 51, res_platformFee = 14, res_socialWalletFee = 1 \<rparr>
   \<and> balanceOf (snd (sendGift (giftRequest ''crown'' 5) ''gift_3'' giftStore29)) ''A'' = 949
   \<and> balanceOf (snd (sendGift (giftRequest ''crown'' 5) ''gift_3'' giftStore29)) ''B'' = 35
   \<and> fst (sendGift (giftRequest ''crown'' 1) ''gift_4'' giftStore35)
     = Inr \<lparr> res_transactionId = ''gift_4'', res_message = ''Gift sent successfully'',
             res_totalCost = 10, res_platformFee = 4, res_socialWalletFee = 0 \<rparr>
   \<and> balanceOf (snd (sendGift (giftRequest ''crown'' 1) ''gift_4'' giftStore35)) ''A'' = 990
   \<and> balanceOf (snd (sendGift (giftRequest ''crown'' 1) ''gift_4'' giftStore35)) ''B'' = 6"
proof -
  let ?rose = "\<lparr> giftName = ''Rose'', isActive = True, giftPlatformId = None,
             priceCoins = 100, isLimited = False, maxQuantity = None, soldQuantity = 0 \<rparr>"
  let ?crown = "\<lparr> giftName = ''Crown'', isActive = True, giftPlatformId = None,
             priceCoins = 10, isLimited = True, maxQuantity = None, soldQuantity = 7 \<rparr>"
  have users: "req_fromUserId (giftRequest g q) = ''A''" "req_toUserId (giftRequest g q) = ''B''"
    for g q by (simp_all add: giftRequest_def)
  let ?out = "sendGift (giftRequest ''rose'' 2) ''gift_1'' giftStore10"
  let ?res = "\<lparr> res_transactionId = ''gift_1'', res_message = ''Gift sent successfully'',
             res_totalCost = 203, res_platformFee = 20, res_socialWalletFee = 3 \<rparr>"
  have res: "fst ?out = Inr ?res" by code_simp
  then have out: "?out = (Inr ?res, snd ?out)" by (metis prod.collapse)
  have gift: "giftTypes giftStore10 (req_giftTypeId (giftRequest ''rose'' 2)) = Some ?rose"
    by code_simp
  have tot: "(200::int) = priceCoins ?rose * quantityOf (giftRequest ''rose'' 2)"
    by code_simp
  have pf: "(20::int) = Math_round (fmul (of_int 200)
              (platformFeeRate giftStore10 (req_platformId (giftRequest ''rose'' 2))))"
    by code_simp
  have sf: "(3::int) = Math_round (fmul (of_int 200) socialWalletFeeRate)"
    by code_simp
  have before: "balanceOf giftStore10 ''A'' = 1000" "balanceOf giftStore10 ''B'' = 0"
    by code_simp+
  have one: "fst ?out = Inr ?res \<and> balanceOf giftStore10 ''A'' = 1000
      \<and> balanceOf (snd ?out) ''A'' = 797 \<and> balanceOf giftStore10 ''B'' = 0
      \<and> balanceOf (snd ?out) ''B'' = 177"
    using sendGift_amounts [OF out gift tot pf sf] res before unfolding users by simp

  let ?out29 = "sendGift (giftRequest ''crown'' 5) ''gift_3'' giftStore29"
  let ?res29 = "\<lparr> res_transactionId = ''gift_3'', res_message = ''Gift sent successfully'',
             res_totalCost = 51, res_platformFee = 14, res_socialWalletFee = 1 \<rparr>"
  have res29: "fst ?out29 = Inr ?res29" by code_simp
  then have out29: "?out29 = (Inr ?res29, snd ?out29)" by (metis prod.collapse)
  have gift29: "giftTypes giftStore29 (req_giftTypeId (giftRequest ''crown'' 5)) = Some ?crown"
    by code_simp
  have tot29: "(50::int) = priceCoins ?crown * quantityOf (giftRequest ''crown'' 5)"
    by code_simp
  have pf29: "(14::int) = Math_round (fmul (of_int 50)
              (platformFeeRate giftStore29 (req_platformId (giftRequest ''crown'' 5))))"
    by code_simp
  have sf29: "(1::int) = Math_round (fmul (of_int 50) socialWalletFeeRate)"
    by code_simp
  have before29: "balanceOf giftStore29 ''A'' = 1000" "balanceOf giftStore29 ''B'' = 0"
    by code_simp+
  have two: "fst ?out29 = Inr ?res29 \<and> balanceOf (snd ?out29) ''A'' = 949
      \<and> balanceOf (snd ?out29) ''B'' = 35"
    using sendGift_amounts [OF out29 gift29 tot29 pf29 sf29] res29 before29
    unfolding users by simp

  let ?out35 = "sendGift (giftRequest ''crown'' 1) ''gift_4'' giftStore35"
  let ?res35 = "\<lparr> res_transactionId = ''gift_4'', res_message = ''Gift sent successfully'',
             res_totalCost = 10, res_platformFee = 4, res_socialWalletFee = 0 \<rparr>"
  have res35: "fst ?out35 = Inr ?res35" by code_simp
  then have out35: "?out35 = (Inr ?res35, snd ?out35)" by (metis prod.collapse)
  have gift35: "giftTypes giftStore35 (req_giftTypeId (giftRequest ''crown'' 1)) = Some ?crown"
    by code_simp
  have tot35: "(10::int) = priceCoins ?crown * quantityOf (giftRequest ''crown'' 1)"
    by code_simp
  have pf35: "(4::int) = Math_round (fmul (of_int 10)
              (platformFeeRate giftStore35 (req_platformId (giftRequest ''crown'' 1))))"
    by code_simp
  have sf35: "(0::int) = Math_round (fmul (of_int 10) socialWalletFeeRate)"
    by code_simp
  have before35: "balanceOf giftStore35 ''A'' = 1000" "balanceOf giftStore35 ''B'' = 0"
    by code_simp+
  have three: "fst ?out35 = Inr ?res35 \<and> balanceOf (snd ?out35) ''A'' = 990
      \<and> balanceOf (snd ?out35) ''B'' = 6"
    using sendGift_amounts [OF out35 gift35 tot35 pf35 sf35] res35 before35
    unfolding users by simp

  show ?thesis using one two three by blast
qed

text \<open>
  The claim as stated fails for a stored share of 0, the share \<^verbatim>\<open>disableMarketplace\<close>
  writes: the platform fee of a total of 200 is 20, not \<open>Math.round(200 * 0) = 0\<close>, and the
  receiver gets 177, not 197. It also fails where the double product and the exact
  product round apart: at 29 percent the fee of a total of 50 is 14, not the 15 that
  rounding 14.5 gives.
\<close>

theorem sendGift_zero_share_counterexample:
  "giftMarketplaces giftStoreDisabled ''platform1''
     = Some \<lparr> revenueShare = 0, isEnabled = False \<rparr>
   \<and> fst (sendGift (giftRequest ''rose'' 2) ''gift_1'' giftStoreDisabled)
     = Inr \<lparr> res_transactionId = ''gift_1'', res_message = ''Gift sent successfully'',
             res_totalCost = 203, res_platformFee = 20, res_socialWalletFee = 3 \<rparr>
   \<and> Math_round (fmul (of_int (100 * 2)) 0) = 0
   \<and> balanceOf (snd (sendGift (giftRequest ''rose'' 2) ''gift_1'' giftStoreDisabled)) ''B'' = 177
   \<and> fst (sendGift (giftRequest ''crown'' 5) ''gift_3'' giftStore29)
     = Inr \<lparr> res_transactionId = ''gift_3'', res_message = ''Gift sent successfully'',
             res_totalCost = 51, res_platformFee = 14, res_socialWalletFee = 1 \<rparr>
   \<and> Math_round (of_int (10 * 5) * (29 / 100)) = 15"
  by code_simp

text \<open>
  C2 fails on the code. With a revenue share of 100 percent, which \<^verbatim>\<open>enableMarketplace\<close>
  accepts, the receiver's amount for one 100-coin gift is \<open>100 - 100 - 2 = -2\<close>: the
  sender's debit of 102 is committed, then \<^verbatim>\<open>addCoins\<close> throws \<open>INVALID_AMOUNT\<close>. The send
  fails and leaves the sender debited, the receiver not credited and no audit row.
\<close>

theorem sendGift_debit_without_credit:
  "fst (sendGift (giftRequest ''rose'' 1) ''gift_1'' giftStore100) = Inl INVALID_AMOUNT
   \<and> balanceOf giftStore100 ''A'' = 1000
   \<and> balanceOf (snd (sendGift (giftRequest ''rose'' 1) ''gift_1'' giftStore100)) ''A'' = 898
   \<and> balanceOf (snd (sendGift (giftRequest ''rose'' 1) ''gift_1'' giftStore100)) ''B'' = 0
   \<and> map amount (walletTransactions
        (snd (sendGift (giftRequest ''rose'' 1) ''gift_1'' giftStore100))) = [1000, - 102]
   \<and> giftTransactions (snd (sendGift (giftRequest ''rose'' 1) ''gift_1'' giftStore100)) = []"
  by code_simp

text \<open>
  C10. For a gift type flagged limited whose cap is absent, \<open>sendGift\<close> never fails with
  \<open>INSUFFICIENT_QUANTITY\<close>, and every send that succeeds raises the sold count by the
  quantity sent.
\<close>

theorem sendGift_limited_without_cap:
  assumes gift: "giftTypes s (req_giftTypeId request) = Some g"
    and limited: "isLimited g" and nocap: "maxQuantity g = None"
  shows "(\<forall>a r. fst (sendGift request transactionId s) \<noteq> Inl (INSUFFICIENT_QUANTITY a r))
       \<and> (\<forall>res s'. sendGift request transactionId s = (Inr res, s') \<longrightarrow>
            (\<exists>g'. giftTypes s' (req_giftTypeId request) = Some g'
                  \<and> soldQuantity g' = soldQuantity g + quantityOf request))"
proof (intro conjI allI impI)
  fix a r
  show "fst (sendGift request transactionId s) \<noteq> Inl (INSUFFICIENT_QUANTITY a r)"
    using gift limited nocap
    by (auto simp: sendGift_def stockShortfall_def Let_def dest: sendGiftWrites_error
          split: if_splits option.splits prod.splits sum.splits)
next
  fix res s' assume ok: "sendGift request transactionId s = (Inr res, s')"
  from ok obtain g0 where g0: "giftTypes s (req_giftTypeId request) = Some g0"
    and ne: "req_fromUserId request \<noteq> req_toUserId request"
    and w: "sendGiftWrites request transactionId g0 (quantityOf request)
           (priceCoins g0 * quantityOf request)
           (platformFeeOf (priceCoins g0 * quantityOf request)
              (platformFeeRate s (req_platformId request)))
           (socialWalletFeeOf (priceCoins g0 * quantityOf request)) s = (Inr (), s')"
    by (rule sendGift_success)
  from g0 gift have "g0 = g" by simp
  with sendGiftWrites_success(3)[OF w ne] limited gift
  show "\<exists>g'. giftTypes s' (req_giftTypeId request) = Some g'
             \<and> soldQuantity g' = soldQuantity g + quantityOf request"
    by auto
qed

theorem sendGift_limited_without_cap_witness:
  "fst (sendGift (giftRequest ''crown'' 5) ''gift_2'' giftStore)
     = Inr \<lparr> res_transactionId = ''gift_2'', res_message = ''Gift sent successfully'',
             res_totalCost = 51, res_platformFee = 5, res_socialWalletFee = 1 \<rparr>
   \<and> (\<exists>g'. giftTypes (snd (sendGift (giftRequest ''crown'' 5) ''gift_2'' giftStore)) ''crown''
              = Some g' \<and> soldQuantity g' = 12)"
proof -
  let ?out = "sendGift (giftRequest ''crown'' 5) ''gift_2'' giftStore"
  let ?res = "\<lparr> res_transactionId = ''gift_2'', res_message = ''Gift sent successfully'',
             res_totalCost = 51, res_platformFee = 5, res_socialWalletFee = 1 \<rparr>"
  let ?crown = "\<lparr> giftName = ''Crown'', isActive = True, giftPlatformId = None,
             priceCoins = 10, isLimited = True, maxQuantity = None, soldQuantity = 7 \<rparr>"
  have res: "fst ?out = Inr ?res" by code_simp
  then have out: "?out = (Inr ?res, snd ?out)" by (metis prod.collapse)
  have gift: "giftTypes giftStore (req_giftTypeId (giftRequest ''crown'' 5)) = Some ?crown"
    by code_simp
  have limited: "isLimited ?crown" and nocap: "maxQuantity ?crown = None" by simp_all
  have q: "quantityOf (giftRequest ''crown'' 5) = 5"
    and gid: "req_giftTypeId (giftRequest ''crown'' 5) = ''crown''"
    by (simp_all add: quantityOf_def giftRequest_def)
  show ?thesis
    using sendGift_limited_without_cap [OF gift limited nocap, of "''gift_2''"] out res
    unfolding gid q by auto
qed

section \<open>The payment-succeeded webhook\<close>

text \<open>
  C1 fails on the code. \<^verbatim>\<open>handlePaymentSuccess\<close> writes the payment's status and never
  reads it: the same event delivered twice for the pending payment \<open>pi_1\<close> of 500 coins
  succeeds twice, and leaves a balance of 1000 and two deposit rows where one delivery
  leaves a balance of 500.
\<close>

theorem handlePaymentSuccess_double_credit:
  "fst (handlePaymentSuccess paymentEvent 10 paymentStore) = Inr ()
   \<and> balanceOf (snd (handlePaymentSuccess paymentEvent 10 paymentStore)) ''A'' = 500
   \<and> map_option sp_status
        (stripePayments (snd (handlePaymentSuccess paymentEvent 10 paymentStore)) ''pi_1'')
       = Some SUCCEEDED
   \<and> fst (handlePaymentSuccess paymentEvent 20
            (snd (handlePaymentSuccess paymentEvent 10 paymentStore))) = Inr ()
   \<and> balanceOf (snd (handlePaymentSuccess paymentEvent 20
            (snd (handlePaymentSuccess paymentEvent 10 paymentStore)))) ''A'' = 1000
   \<and> map amount (walletTransactions (snd (handlePaymentSuccess paymentEvent 20
            (snd (handlePaymentSuccess paymentEvent 10 paymentStore))))) = [500, 500]"
  by code_simp

section \<open>Authorization codes\<close>

lemma grant_success:
  assumes "handleAuthorizationCodeGrant cid code ruri now tok rt s = (Inr resp, s1)"
  obtains ac where "authorizationCodes s code = Some ac" "\<not> ac_used ac"
    "\<not> ac_expiresAt ac < now"
    "resp = \<lparr> tr_accessToken = tok, tr_tokenType = ''Bearer'', tr_expiresIn = 3600,
              tr_refreshToken = rt, tr_scope = ac_scopes ac \<rparr>"
    "s1 = s\<lparr> authorizationCodes := (authorizationCodes s)(code \<mapsto> ac\<lparr> ac_used := True \<rparr>),
            accessTokens := accessTokens s @
              [\<lparr> at_userId = ac_userId ac, at_clientId = ac_clientId ac, at_token = tok,
                 at_refreshToken = rt, at_scopes = ac_scopes ac,
                 at_expiresAt = now + 60 * 60 * 1000 \<rparr>] \<rparr>"
  using assms
  by (auto simp: handleAuthorizationCodeGrant_def split: option.splits if_splits)

lemma grant_failure:
  "handleAuthorizationCodeGrant cid code ruri now tok rt s = (Inl e, s1) \<Longrightarrow> s1 = s"
  by (auto simp: handleAuthorizationCodeGrant_def split: option.splits if_splits)

lemma grant_used:
  "authorizationCodes s code = Some ac \<Longrightarrow> ac_used ac \<Longrightarrow>
     handleAuthorizationCodeGrant cid code ruri now tok rt s = (Inl CODE_ALREADY_USED, s)"
  by (simp add: handleAuthorizationCodeGrant_def)

lemma grant_expired:
  "authorizationCodes s code = Some ac \<Longrightarrow> \<not> ac_used ac \<Longrightarrow> ac_expiresAt ac < now \<Longrightarrow>
     handleAuthorizationCodeGrant cid code ruri now tok rt s = (Inl CODE_EXPIRED, s)"
  by (simp add: handleAuthorizationCodeGrant_def)

lemma exchangeOne_keeps_used:
  "codeUsed s code \<Longrightarrow> codeUsed (snd (exchangeOne x s)) code"
  by (auto simp: codeUsed_def exchangeOne_def handleAuthorizationCodeGrant_def
        split: option.splits if_splits)

lemma exchangeOne_used_fails:
  "codeUsed s (ex_code x) \<Longrightarrow> isl (fst (exchangeOne x s))"
  by (auto simp: codeUsed_def exchangeOne_def handleAuthorizationCodeGrant_def
        split: option.splits if_splits)

lemma exchangeOne_success_uses:
  "\<not> isl (fst (exchangeOne x s)) \<Longrightarrow> codeUsed (snd (exchangeOne x s)) (ex_code x)"
  by (auto simp: codeUsed_def exchangeOne_def handleAuthorizationCodeGrant_def
        split: option.splits if_splits)

lemma tokensIssuedFor_Cons:
  "tokensIssuedFor code (x # xs) (r # rs) =
     (if ex_code x = code \<and> \<not> isl r then 1 else 0) + tokensIssuedFor code xs rs"
  by (simp add: tokensIssuedFor_def)

lemma exchangeAll_Cons:
  "fst (exchangeAll (x # xs) s) = fst (exchangeOne x s) # fst (exchangeAll xs (snd (exchangeOne x s)))"
  by (simp add: split_def Let_def)

lemma used_code_issues_nothing:
  "codeUsed s code \<Longrightarrow> tokensIssuedFor code xs (fst (exchangeAll xs s)) = 0"
proof (induction xs arbitrary: s)
  case Nil
  then show ?case by (simp add: tokensIssuedFor_def)
next
  case (Cons x xs)
  from Cons.prems have "codeUsed (snd (exchangeOne x s)) code" by (rule exchangeOne_keeps_used)
  from Cons.IH[OF this] Cons.prems show ?case
    using exchangeOne_used_fails[of s x]
    by (auto simp: exchangeAll_Cons tokensIssuedFor_Cons simp del: exchangeAll.simps)
qed

lemma at_most_one_token:
  "tokensIssuedFor code xs (fst (exchangeAll xs s)) \<le> 1"
proof (induction xs arbitrary: s)
  case Nil
  then show ?case by (simp add: tokensIssuedFor_def)
next
  case (Cons x xs)
  show ?case
  proof (cases "ex_code x = code \<and> \<not> isl (fst (exchangeOne x s))")
    case True
    then have "codeUsed (snd (exchangeOne x s)) code"
      using exchangeOne_success_uses[of x s] by simp
    from used_code_issues_nothing[OF this] True show ?thesis
      by (simp add: exchangeAll_Cons tokensIssuedFor_Cons del: exchangeAll.simps)
  next
    case False
    with Cons.IH[of "snd (exchangeOne x s)"] show ?thesis
      by (auto simp: exchangeAll_Cons tokensIssuedFor_Cons simp del: exchangeAll.simps)
  qed
qed


text \<open>
  C5. A successful exchange returns the token pair it was given, with the scope of the
  code, and its writes are exactly two: the code is marked used and one token row is
  added, holding that token pair, the code's user, client and scope, and an expiry one
  hour after the exchange. Every later exchange of that code, whatever its arguments,
  fails with \<open>CODE_ALREADY_USED\<close> and leaves the store as it is. A code that is used or
  past its expiry yields an error and no write. In any sequence of exchanges at most one
  request for a given code is answered with a token.
\<close>

theorem code_exchanged_at_most_once:
  "(\<forall>resp s1. handleAuthorizationCodeGrant clientId code redirectUri now tok refresh s
                 = (Inr resp, s1) \<longrightarrow>
      (\<exists>ac. authorizationCodes s code = Some ac \<and> \<not> ac_used ac \<and> \<not> ac_expiresAt ac < now
         \<and> resp = \<lparr> tr_accessToken = tok, tr_tokenType = ''Bearer'', tr_expiresIn = 3600,
                     tr_refreshToken = refresh, tr_scope = ac_scopes ac \<rparr>
         \<and> s1 = s\<lparr> authorizationCodes :=
                      (authorizationCodes s)(code \<mapsto> ac\<lparr> ac_used := True \<rparr>),
                    accessTokens := accessTokens s @
                      [\<lparr> at_userId = ac_userId ac, at_clientId = ac_clientId ac,
                         at_token = tok, at_refreshToken = refresh,
                         at_scopes = ac_scopes ac,
                         at_expiresAt = now + 60 * 60 * 1000 \<rparr>] \<rparr>)
      \<and> codeUsed s1 code
      \<and> length (accessTokens s1) = Suc (length (accessTokens s))
      \<and> (\<forall>clientId' redirectUri' now' tok' refresh'.
            handleAuthorizationCodeGrant clientId' code redirectUri' now' tok' refresh' s1
              = (Inl CODE_ALREADY_USED, s1)))
   \<and> (\<forall>ac. authorizationCodes s code = Some ac \<and> (ac_used ac \<or> ac_expiresAt ac < now) \<longrightarrow>
         (\<exists>e. handleAuthorizationCodeGrant clientId code redirectUri now tok refresh s
                = (Inl e, s)))
   \<and> tokensIssuedFor code xs (fst (exchangeAll xs s)) \<le> 1"
proof (intro conjI allI impI)
  fix resp s1
  assume ok: "handleAuthorizationCodeGrant clientId code redirectUri now tok refresh s
                = (Inr resp, s1)"
  then obtain ac where ac: "authorizationCodes s code = Some ac"
    and fresh: "\<not> ac_used ac" "\<not> ac_expiresAt ac < now"
    and resp: "resp = \<lparr> tr_accessToken = tok, tr_tokenType = ''Bearer'', tr_expiresIn = 3600,
                     tr_refreshToken = refresh, tr_scope = ac_scopes ac \<rparr>"
    and s1: "s1 = s\<lparr> authorizationCodes :=
                      (authorizationCodes s)(code \<mapsto> ac\<lparr> ac_used := True \<rparr>),
                    accessTokens := accessTokens s @
                      [\<lparr> at_userId = ac_userId ac, at_clientId = ac_clientId ac,
                         at_token = tok, at_refreshToken = refresh,
                         at_scopes = ac_scopes ac,
                         at_expiresAt = now + 60 * 60 * 1000 \<rparr>] \<rparr>"
    by (rule grant_success)
  show "\<exists>ac. authorizationCodes s code = Some ac \<and> \<not> ac_used ac \<and> \<not> ac_expiresAt ac < now
         \<and> resp = \<lparr> tr_accessToken = tok, tr_tokenType = ''Bearer'', tr_expiresIn = 3600,
                     tr_refreshToken = refresh, tr_scope = ac_scopes ac \<rparr>
         \<and> s1 = s\<lparr> authorizationCodes :=
                      (authorizationCodes s)(code \<mapsto> ac\<lparr> ac_used := True \<rparr>),
                    accessTokens := accessTokens s @
                      [\<lparr> at_userId = ac_userId ac, at_clientId = ac_clientId ac,
                         at_token = tok, at_refreshToken = refresh,
                         at_scopes = ac_scopes ac,
                         at_expiresAt = now + 60 * 60 * 1000 \<rparr>] \<rparr>"
    using ac fresh resp s1 by blast
  have codes: "authorizationCodes s1 code = Some (ac\<lparr> ac_used := True \<rparr>)"
    by (simp add: s1)
  show "codeUsed s1 code" using codes by (simp add: codeUsed_def)
  show "length (accessTokens s1) = Suc (length (accessTokens s))" by (simp add: s1)
  fix clientId' redirectUri' now' tok' refresh'
  show "handleAuthorizationCodeGrant clientId' code redirectUri' now' tok' refresh' s1
          = (Inl CODE_ALREADY_USED, s1)"
    using codes by (intro grant_used [where ac = "ac\<lparr> ac_used := True \<rparr>"]) simp_all
next
  fix ac
  assume "authorizationCodes s code = Some ac \<and> (ac_used ac \<or> ac_expiresAt ac < now)"
  then show "\<exists>e. handleAuthorizationCodeGrant clientId code redirectUri now tok refresh s
                = (Inl e, s)"
    using grant_used [of s code ac] grant_expired [of s code ac now] by (cases "ac_used ac") auto
next
  show "tokensIssuedFor code xs (fst (exchangeAll xs s)) \<le> 1" by (rule at_most_one_token)
qed

text \<open>
  The scenario of the specification: code C of client X with scope profile is exchanged
  once, at time 1000, for the token pair drawn for it, with that scope; the store then
  holds the code marked used and the one token row of user A and client X, expiring at
  3601000; the second exchange fails with \<open>CODE_ALREADY_USED\<close>.
\<close>

theorem code_exchanged_at_most_once_witness:
  "handleAuthorizationCodeGrant ''X'' ''C'' ''https://x.example/cb'' 1000 ''token1'' ''refresh1''
        codeStore
     = (Inr \<lparr> tr_accessToken = ''token1'', tr_tokenType = ''Bearer'', tr_expiresIn = 3600,
              tr_refreshToken = ''refresh1'', tr_scope = [''profile''] \<rparr>, usedCodeStore)
   \<and> accessTokens codeStore = []
   \<and> accessTokens usedCodeStore
       = [\<lparr> at_userId = ''A'', at_clientId = ''X'', at_token = ''token1'',
            at_refreshToken = ''refresh1'', at_scopes = [''profile''],
            at_expiresAt = 3601000 \<rparr>]
   \<and> authorizationCodes usedCodeStore ''C''
       = Some \<lparr> ac_userId = ''A'', ac_clientId = ''X'',
                ac_redirectUri = ''https://x.example/cb'', ac_scopes = [''profile''],
                ac_expiresAt = 600000, ac_used = True \<rparr>
   \<and> codeUsed usedCodeStore ''C''
   \<and> length (accessTokens usedCodeStore) = 1
   \<and> handleAuthorizationCodeGrant ''X'' ''C'' ''https://x.example/cb'' 2000 ''token2'' ''refresh2''
        usedCodeStore = (Inl CODE_ALREADY_USED, usedCodeStore)
   \<and> fst (exchangeAll
        [exchangeC 1000 ''token1'' ''refresh1'', exchangeC 2000 ''token2'' ''refresh2''] codeStore)
       = [Inr \<lparr> tr_accessToken = ''token1'', tr_tokenType = ''Bearer'', tr_expiresIn = 3600,
                tr_refreshToken = ''refresh1'', tr_scope = [''profile''] \<rparr>,
          Inl CODE_ALREADY_USED]
   \<and> tokensIssuedFor ''C''
        [exchangeC 1000 ''token1'' ''refresh1'', exchangeC 2000 ''token2'' ''refresh2'']
        (fst (exchangeAll
           [exchangeC 1000 ''token1'' ''refresh1'', exchangeC 2000 ''token2'' ''refresh2'']
           codeStore)) \<le> 1"
proof -
  let ?resp = "\<lparr> tr_accessToken = ''token1'', tr_tokenType = ''Bearer'', tr_expiresIn = 3600,
              tr_refreshToken = ''refresh1'', tr_scope = [''profile''] \<rparr>"
  let ?ac = "\<lparr> ac_userId = ''A'', ac_clientId = ''X'', ac_redirectUri = ''https://x.example/cb'',
       ac_scopes = [''profile''], ac_expiresAt = 600000, ac_used = False \<rparr>"
  let ?xs = "[exchangeC 1000 ''token1'' ''refresh1'', exchangeC 2000 ''token2'' ''refresh2'']"
  have run: "fst (exchangeAll ?xs codeStore) = [Inr ?resp, Inl CODE_ALREADY_USED]"
    by code_simp
  have "fst (handleAuthorizationCodeGrant ''X'' ''C'' ''https://x.example/cb'' 1000
               ''token1'' ''refresh1'' codeStore) = Inr ?resp"
    by code_simp
  moreover have "snd (handleAuthorizationCodeGrant ''X'' ''C'' ''https://x.example/cb'' 1000
               ''token1'' ''refresh1'' codeStore) = usedCodeStore"
    by (simp add: usedCodeStore_def exchangeOne_def exchangeC_def)
  ultimately have first: "handleAuthorizationCodeGrant ''X'' ''C'' ''https://x.example/cb'' 1000
               ''token1'' ''refresh1'' codeStore = (Inr ?resp, usedCodeStore)"
    by (metis prod.collapse)
  have empty: "accessTokens codeStore = []" by (simp add: codeStore_def empty_db_def)
  have stored: "authorizationCodes codeStore ''C'' = Some ?ac"
    by (simp add: codeStore_def empty_db_def)
  from code_exchanged_at_most_once [of "''X''" "''C''" "''https://x.example/cb''" 1000
        "''token1''" "''refresh1''" codeStore ?xs] first
  have writes: "usedCodeStore = codeStore\<lparr> authorizationCodes :=
                      (authorizationCodes codeStore)(''C'' \<mapsto> ?ac\<lparr> ac_used := True \<rparr>),
                    accessTokens := accessTokens codeStore @
                      [\<lparr> at_userId = ac_userId ?ac, at_clientId = ac_clientId ?ac,
                         at_token = ''token1'', at_refreshToken = ''refresh1'',
                         at_scopes = ac_scopes ?ac,
                         at_expiresAt = 1000 + 60 * 60 * 1000 \<rparr>] \<rparr>"
    and later: "handleAuthorizationCodeGrant ''X'' ''C'' ''https://x.example/cb'' 2000
        ''token2'' ''refresh2'' usedCodeStore = (Inl CODE_ALREADY_USED, usedCodeStore)"
    and used: "codeUsed usedCodeStore ''C''"
    and count: "tokensIssuedFor ''C'' ?xs (fst (exchangeAll ?xs codeStore)) \<le> 1"
    using stored by auto
  have row: "accessTokens usedCodeStore
       = [\<lparr> at_userId = ''A'', at_clientId = ''X'', at_token = ''token1'',
            at_refreshToken = ''refresh1'', at_scopes = [''profile''],
            at_expiresAt = 3601000 \<rparr>]"
    by (subst writes) (simp add: empty)
  have code: "authorizationCodes usedCodeStore ''C'' = Some (?ac\<lparr> ac_used := True \<rparr>)"
    by (subst writes) simp
  show ?thesis
    using first empty row code used later run count by simp
qed

text \<open>
  C7, as amended. For every stored code that is not used and whose expiry lies before the
  time of the exchange, the exchange fails with \<open>CODE_EXPIRED\<close>, whatever client and
  redirect URI it names, and writes nothing.
\<close>

theorem expired_code_rejected:
  assumes "authorizationCodes s code = Some ac" and "\<not> ac_used ac"
    and "ac_expiresAt ac < now"
  shows "handleAuthorizationCodeGrant clientId code redirectUri now tok refresh s
           = (Inl CODE_EXPIRED, s)"
  using assms by (simp add: handleAuthorizationCodeGrant_def)

theorem expired_code_rejected_witness:
  "handleAuthorizationCodeGrant ''X'' ''C'' ''https://x.example/cb'' 700000 ''token1'' ''refresh1''
     codeStore = (Inl CODE_EXPIRED, codeStore)
   \<and> handleAuthorizationCodeGrant ''Y'' ''C'' ''https://evil.example/cb'' 700000 ''token1''
       ''refresh1'' codeStore = (Inl CODE_EXPIRED, codeStore)"
proof -
  let ?ac = "\<lparr> ac_userId = ''A'', ac_clientId = ''X'', ac_redirectUri = ''https://x.example/cb'',
       ac_scopes = [''profile''], ac_expiresAt = 600000, ac_used = False \<rparr>"
  have stored: "authorizationCodes codeStore ''C'' = Some ?ac"
    by (simp add: codeStore_def empty_db_def)
  have unused: "\<not> ac_used ?ac" and late: "ac_expiresAt ?ac < 700000" by simp_all
  show ?thesis
    using expired_code_rejected [OF stored unused late, of "''X''" "''https://x.example/cb''"
        "''token1''" "''refresh1''"]
      expired_code_rejected [OF stored unused late, of "''Y''" "''https://evil.example/cb''"
        "''token1''" "''refresh1''"]
    by simp
qed

text \<open>
  The claim as stated fails for a code that is both used and expired: the used check comes
  first and the error is \<open>CODE_ALREADY_USED\<close>.
\<close>

theorem expired_used_code_counterexample:
  "map_option ac_used (authorizationCodes usedCodeStore ''C'') = Some True
   \<and> map_option ac_expiresAt (authorizationCodes usedCodeStore ''C'') = Some 600000
   \<and> (600000::int) < 700000
   \<and> fst (handleAuthorizationCodeGrant ''X'' ''C'' ''https://x.example/cb'' 700000
            ''token2'' ''refresh2'' usedCodeStore) = Inl CODE_ALREADY_USED
   \<and> fst (handleAuthorizationCodeGrant ''X'' ''C'' ''https://x.example/cb'' 700000
            ''token2'' ''refresh2'' usedCodeStore) \<noteq> Inl CODE_EXPIRED"
  by code_simp

end
